theory Spec2Isabelle
  imports Complex_Main "HOL-Library.Sublist"
begin

section \<open>JavaScript values used by the worker\<close>

text \<open>
  Numbers of the program are IEEE doubles. The counts that GitHub reports are natural
  numbers, timestamps are integer milliseconds, and the score is modelled over the real
  numbers: \<open>Math.log10\<close> is the real logarithm to base 10 and the arithmetic on scores
  is exact. Strings are byte strings.
\<close>

text \<open>
  The value of \<open>daysSinceUpdate\<close>: a finite number of days,
  \<open>Number.POSITIVE_INFINITY\<close>, or \<open>NaN\<close> (the result of \<open>Math.round\<close> on the time of
  an invalid date).
\<close>

datatype days = Days int | Infinity | NaN

text \<open>\<open>Number.isFinite\<close> on such a value.\<close>

fun isFinite :: "days \<Rightarrow> bool" where
  "isFinite (Days n) = True"
| "isFinite Infinity = False"
| "isFinite NaN = False"

text \<open>
  \<open>String.prototype.trim\<close> and \<open>toLowerCase\<close>, on the ASCII range: the white space
  removed is tab, line feed, vertical tab, form feed, carriage return and space.
\<close>

definition isWhiteSpace :: "char \<Rightarrow> bool" where
  "isWhiteSpace c = (c \<in> set [CHR 0x09, CHR 0x0A, CHR 0x0B, CHR 0x0C, CHR 0x0D, CHR '' ''])"

definition trim :: "string \<Rightarrow> string" where
  "trim s = rev (dropWhile isWhiteSpace (rev (dropWhile isWhiteSpace s)))"

definition lowerChar :: "char \<Rightarrow> char" where
  "lowerChar c =
     (case map_of (zip ''ABCDEFGHIJKLMNOPQRSTUVWXYZ'' ''abcdefghijklmnopqrstuvwxyz'') c of
        Some l \<Rightarrow> l
      | None \<Rightarrow> c)"

definition toLowerCase :: "string \<Rightarrow> string" where
  "toLowerCase s = map lowerChar s"

definition startsWith :: "string \<Rightarrow> string \<Rightarrow> bool" where
  "startsWith s p = (take (length p) s = p)"

text \<open>\<open>Array.prototype.join\<close> on strings.\<close>

fun join :: "string \<Rightarrow> string list \<Rightarrow> string" where
  "join sep [] = []"
| "join sep [x] = x"
| "join sep (x # y # ys) = x @ sep @ join sep (y # ys)"

text \<open>The decimal text of a natural number, as a template literal prints it.\<close>

fun decimal :: "nat \<Rightarrow> string" where
  "decimal n =
     (if n < 10 then [''0123456789'' ! n]
      else decimal (n div 10) @ [''0123456789'' ! (n mod 10)])"

declare decimal.simps [simp del]

text \<open>
  \<open>Number(x.toFixed(2))\<close>: the multiple of 1/100 nearest to \<open>x\<close>; of two equally near
  ones \<open>toFixed\<close> takes the larger in absolute value (it rounds the absolute value and
  puts the sign back).
\<close>

definition toFixed2 :: "real \<Rightarrow> real" where
  "toFixed2 x =
     (if x < 0 then - (real_of_int \<lfloor>(- x) * 100 + 1 / 2\<rfloor> / 100)
      else real_of_int \<lfloor>x * 100 + 1 / 2\<rfloor> / 100)"

text \<open>\<open>Array.prototype.filter(Boolean)\<close> on an array of strings and \<open>null\<close>s.\<close>

fun filterBoolean :: "string option list \<Rightarrow> string list" where
  "filterBoolean [] = []"
| "filterBoolean (None # xs) = filterBoolean xs"
| "filterBoolean (Some s # xs) = (if s = [] then filterBoolean xs else s # filterBoolean xs)"

section \<open>Data model\<close>

text \<open>A repository as the GitHub search API returns it (the fields the worker reads).\<close>

record raw_license =
  spdx_id :: "string option"
  license_name :: "string option"

record raw_owner =
  raw_login :: "string option"
  raw_html_url :: "string option"
  raw_type :: "string option"

record repo =
  repo_id :: nat
  full_name :: string
  html_url :: string
  repo_description :: "string option"
  repo_homepage :: "string option"
  stargazers_count :: nat
  forks_count :: nat
  watchers_count :: nat
  open_issues_count :: nat
  repo_language :: "string option"
  repo_topics :: "string list option"
  repo_license :: "raw_license option"
  pushed_at :: "string option"
  updated_at :: "string option"
  repo_owner :: "raw_owner option"
  default_branch :: "string option"

text \<open>The normalized project that \<open>normalizeRepo\<close> returns.\<close>

record project_owner =
  login :: "string option"
  owner_url :: "string option"
  owner_type :: "string option"

record project =
  project_id :: nat
  name :: string
  url :: string
  description :: string
  homepage :: "string option"
  stars :: nat
  forks :: nat
  watchers :: nat
  openIssues :: nat
  language :: "string option"
  topics :: "string list"
  license :: "string option"
  lastPushedAt :: "string option"
  daysSinceUpdate :: days
  owner :: project_owner
  defaultBranch :: "string option"
  score :: real
  reasons :: "string list"

text \<open>The search filters: the \<open>payload\<close> of a job.\<close>

record search_filters =
  topic :: string
  filter_language :: "string option"
  minStars :: "real option"
  onlyMaintained :: bool
  limit :: int

text \<open>
  What the worker takes from its runtime: the clock, the \<open>Date\<close> parser (\<open>None\<close> for an
  invalid date, whose time is \<open>NaN\<close>), \<open>Number.prototype.toLocaleString\<close>,
  \<open>encodeURIComponent\<close>, and the process environment.
\<close>

record runtime =
  now :: int
  nowISO :: string
  getTime :: "string \<Rightarrow> int option"
  toLocaleString :: "nat \<Rightarrow> string"
  encodeURIComponent :: "string \<Rightarrow> string"
  maintainedSince :: string
  REDIS_URL :: string
  REQUEST_QUEUE :: string
  RESULT_PREFIX :: string
  JOB_METADATA_PREFIX :: string
  RESULT_TTL_SECONDS :: nat
  USER_AGENT :: string
  TAVILY_API_KEY :: string
  GITHUB_TOKEN :: "string option"

definition hasTavily :: "runtime \<Rightarrow> bool" where
  "hasTavily rt = (TAVILY_API_KEY rt \<noteq> [])"

section \<open>Scoring and normalization\<close>

fun describeFreshness :: "days \<Rightarrow> string" where
  "describeFreshness (Days d) =
     (if d \<le> 7 then ''updated this week''
      else if d \<le> 30 then ''updated this month''
      else if d \<le> 90 then ''activity within the last quarter''
      else if d \<le> 180 then ''activity within the last six months''
      else if d \<le> 365 then ''activity within the last year''
      else ''no recent commits in the last year'')"
| "describeFreshness Infinity = ''unknown activity''"
| "describeFreshness NaN = ''unknown activity''"

definition cleanDescription :: "string option \<Rightarrow> string" where
  "cleanDescription raw =
     (let v = (case raw of Some s \<Rightarrow> trim s | None \<Rightarrow> []) in
      if v = [] then [] else v)"

text \<open>\<open>repo.pushed_at ?? repo.updated_at\<close>.\<close>

definition updatedAtOf :: "repo \<Rightarrow> string option" where
  "updatedAtOf r = (case pushed_at r of Some s \<Rightarrow> Some s | None \<Rightarrow> updated_at r)"

text \<open>
  The days since the last update: \<open>Infinity\<close> when the timestamp is absent or the
  empty string, \<open>Math.round\<close> (half up) of the elapsed days otherwise.
\<close>

definition daysSince :: "runtime \<Rightarrow> string option \<Rightarrow> days" where
  "daysSince rt updatedAt =
     (case updatedAt of
        None \<Rightarrow> Infinity
      | Some s \<Rightarrow>
          if s = [] then Infinity
          else (case getTime rt s of
                  None \<Rightarrow> NaN
                | Some t \<Rightarrow> Days \<lfloor>real_of_int (now rt - t) / (1000 * 60 * 60 * 24) + 1 / 2\<rfloor>))"

definition log10 :: "real \<Rightarrow> real" where
  "log10 x = log 10 x"

definition freshnessScore :: "days \<Rightarrow> real" where
  "freshnessScore d =
     (if isFinite d then (case d of Days n \<Rightarrow> max 0 (3 - real_of_int n / 120) | _ \<Rightarrow> 0)
      else 0)"

definition rawScore :: "repo \<Rightarrow> days \<Rightarrow> real" where
  "rawScore r d =
     (let starScore = log10 (real (stargazers_count r) + 1) * 2.5;
          forkScore = log10 (real (forks_count r) + 1) * 1.5;
          watcherScore = log10 (real (watchers_count r) + 1);
          issuePenalty = log10 (real (open_issues_count r) + 1)
      in starScore + forkScore + watcherScore + freshnessScore d - issuePenalty)"

definition reasonsOf :: "runtime \<Rightarrow> repo \<Rightarrow> days \<Rightarrow> string list" where
  "reasonsOf rt r d =
     filterBoolean
       [if stargazers_count r \<noteq> 0
        then Some (toLocaleString rt (stargazers_count r) @ '' stars'') else None,
        if forks_count r \<noteq> 0
        then Some (toLocaleString rt (forks_count r) @ '' forks'') else None,
        Some (describeFreshness d),
        (case repo_license r of
           None \<Rightarrow> None
         | Some l \<Rightarrow>
             (case spdx_id l of
                None \<Rightarrow> None
              | Some s \<Rightarrow> if s = [] then None else Some (''License: '' @ s)))]"

definition licenseOf :: "repo \<Rightarrow> string option" where
  "licenseOf r =
     (case repo_license r of
        None \<Rightarrow> None
      | Some l \<Rightarrow> (case spdx_id l of Some s \<Rightarrow> Some s | None \<Rightarrow> license_name l))"

definition ownerOf :: "repo \<Rightarrow> project_owner" where
  "ownerOf r =
     (case repo_owner r of
        None \<Rightarrow> \<lparr>login = None, owner_url = None, owner_type = None\<rparr>
      | Some ow \<Rightarrow>
          \<lparr>login = raw_login ow, owner_url = raw_html_url ow, owner_type = raw_type ow\<rparr>)"

definition normalizeRepo :: "runtime \<Rightarrow> repo \<Rightarrow> project" where
  "normalizeRepo rt r =
     (let updatedAt = updatedAtOf r;
          d = daysSince rt updatedAt
      in \<lparr>project_id = repo_id r,
          name = full_name r,
          url = html_url r,
          description = cleanDescription (repo_description r),
          homepage = repo_homepage r,
          stars = stargazers_count r,
          forks = forks_count r,
          watchers = watchers_count r,
          openIssues = open_issues_count r,
          language = repo_language r,
          topics = (case repo_topics r of Some ts \<Rightarrow> ts | None \<Rightarrow> []),
          license = licenseOf r,
          lastPushedAt = updatedAt,
          daysSinceUpdate = d,
          owner = ownerOf r,
          defaultBranch = default_branch r,
          score = toFixed2 (rawScore r d),
          reasons = reasonsOf rt r d\<rparr>)"

section \<open>The candidate source client\<close>

definition decimalInt :: "int \<Rightarrow> string" where
  "decimalInt i = (if i < 0 then ''-'' @ decimal (nat (- i)) else decimal (nat i))"

text \<open>
  The terms of the search query, before they are joined by spaces. The date of the
  \<open>pushed:\<close> term is \<open>maintainedSince\<close> of the runtime: today minus the month window,
  as \<open>Date\<close> computes it.
\<close>

definition querySegments :: "runtime \<Rightarrow> search_filters \<Rightarrow> string list" where
  "querySegments rt f =
     (let quotedTopic =
            (if CHR '' '' \<in> set (topic f) then [CHR 0x22] @ topic f @ [CHR 0x22] else topic f)
      in [quotedTopic @ '' in:name,description,readme'']
         @ (case filter_language f of
              None \<Rightarrow> []
            | Some l \<Rightarrow> if l = [] then [] else [''language:'' @ l])
         @ (case minStars f of
              None \<Rightarrow> []
            | Some m \<Rightarrow> if m > 0 then [''stars:>='' @ decimalInt \<lfloor>m\<rfloor>] else [])
         @ (if onlyMaintained f then [''pushed:>='' @ maintainedSince rt] else []))"

definition buildGitHubQuery :: "runtime \<Rightarrow> search_filters \<Rightarrow> string" where
  "buildGitHubQuery rt f =
     ''https://api.github.com/search/repositories?q=''
     @ encodeURIComponent rt (join '' '' (querySegments rt f))
     @ ''&sort=stars&order=desc&per_page=''
     @ decimalInt (min (limit f * 2) 50)"

text \<open>
  The comparator sort of arrays. ECMAScript requires \<open>Array.prototype.sort\<close> to be
  stable; the model is the stable insertion sort: an element goes before the first
  element that the comparator does not put before it.
\<close>

fun insertBy :: "('a \<Rightarrow> 'a \<Rightarrow> real) \<Rightarrow> 'a \<Rightarrow> 'a list \<Rightarrow> 'a list" where
  "insertBy cmp x [] = [x]"
| "insertBy cmp x (y # ys) = (if cmp x y \<le> 0 then x # y # ys else y # insertBy cmp x ys)"

definition sortBy :: "('a \<Rightarrow> 'a \<Rightarrow> real) \<Rightarrow> 'a list \<Rightarrow> 'a list" where
  "sortBy cmp xs = foldr (insertBy cmp) xs []"

text \<open>\<open>xs.slice(0, end)\<close>: a negative \<open>end\<close> counts from the end of the array.\<close>

definition slice0 :: "'a list \<Rightarrow> int \<Rightarrow> 'a list" where
  "slice0 xs e = (if e < 0 then take (nat (int (length xs) + e)) xs else take (nat e) xs)"

text \<open>
  What the search request can do: \<open>fetch\<close> rejects, or a response arrives with a status,
  a body text, and the outcome of \<open>response.json()\<close>: a rejection, or a document whose
  \<open>items\<close> is an array or is not.
\<close>

datatype github_response =
    FetchRejects string
  | Response nat string "string + repo list option"

record fetched =
  fr_filters :: search_filters
  fr_totalFetched :: nat
  fr_projects :: "project list"

definition requestHeaders :: "runtime \<Rightarrow> (string \<times> string) list" where
  "requestHeaders rt =
     [(''Accept'', ''application/vnd.github+json''),
      (''User-Agent'', USER_AGENT rt),
      (''X-GitHub-Api-Version'', ''2022-11-28'')]
     @ (case GITHUB_TOKEN rt of
          None \<Rightarrow> []
        | Some t \<Rightarrow> if t = [] then [] else [(''Authorization'', ''Bearer '' @ t)])"

definition hasToken :: "runtime \<Rightarrow> bool" where
  "hasToken rt = (case GITHUB_TOKEN rt of None \<Rightarrow> False | Some t \<Rightarrow> t \<noteq> [])"

definition responseOk :: "nat \<Rightarrow> bool" where
  "responseOk st = (200 \<le> st \<and> st \<le> 299)"

text \<open>
  \<open>fetchRepositories\<close>: \<open>Inl\<close> carries the message of the error it throws. The GitHub
  API is the function \<open>github\<close> from the request to what comes back.
\<close>

definition fetchRepositories ::
  "runtime \<Rightarrow> (string \<Rightarrow> (string \<times> string) list \<Rightarrow> github_response) \<Rightarrow> search_filters
     \<Rightarrow> string + fetched" where
  "fetchRepositories rt github payload =
     (case github (buildGitHubQuery rt payload) (requestHeaders rt) of
        FetchRejects msg \<Rightarrow> Inl msg
      | Response st body parsed \<Rightarrow>
          if \<not> responseOk st then
            (if st = 403 then
               Inl (''GitHub rate limit exceeded. ''
                    @ (if hasToken rt then ''Consider waiting before retrying.''
                       else ''Set GITHUB_TOKEN for higher limits.''))
             else Inl (''GitHub search failed ('' @ decimal st @ ''): '' @ body))
          else
            (case parsed of
               Inl msg \<Rightarrow> Inl msg
             | Inr d \<Rightarrow>
                 (let items = (case d of Some xs \<Rightarrow> xs | None \<Rightarrow> []);
                      normalized = map (normalizeRepo rt) items;
                      sorted = sortBy (\<lambda>a b. score b - score a) normalized;
                      projects = slice0 sorted (limit payload)
                  in Inr \<lparr>fr_filters = payload,
                          fr_totalFetched = length items,
                          fr_projects = projects\<rparr>)))"

section \<open>The summary sentence\<close>

text \<open>A JavaScript \<open>Set\<close> built from an array keeps the first occurrence of each value.\<close>

definition setAdd :: "'a list \<Rightarrow> 'a \<Rightarrow> 'a list" where
  "setAdd s x = (if x \<in> set s then s else s @ [x])"

definition newSet :: "'a list \<Rightarrow> 'a list" where
  "newSet xs = foldl setAdd [] xs"

definition observedLanguages :: "project list \<Rightarrow> string list" where
  "observedLanguages ps = newSet (filterBoolean (map language ps))"

definition topReasons :: "project list \<Rightarrow> string list" where
  "topReasons ps = take 3 (concat (map (\<lambda>p. take 1 (reasons p)) ps))"

definition summarizeResult :: "search_filters \<Rightarrow> project list \<Rightarrow> nat \<Rightarrow> string" where
  "summarizeResult payload ps totalFetched =
     (if length ps = 0 then
        ''No repositories matched '' @ [CHR 0x22] @ topic payload @ [CHR 0x22]
        @ '' with the current filters.''
      else
        (let languages = observedLanguages ps;
             top = join '', '' (topReasons ps);
             languageSummary =
               (if length languages \<noteq> 0
                then '' Focused languages: '' @ join '', '' languages @ ''.'' else []);
             reasonSummary = (if top \<noteq> [] then '' Highlights: '' @ top @ ''.'' else []);
             maintained =
               (if onlyMaintained payload then '' that are actively maintained'' else [])
         in ''Found '' @ decimal (length ps) @ '' standout open-source project(s)''
            @ maintained @ '' for '' @ [CHR 0x22] @ topic payload @ [CHR 0x22] @ ''.''
            @ languageSummary @ reasonSummary))"

section \<open>The enrichment client\<close>

datatype level = LogInfo | LogWarn | LogError

type_synonym log_entry = "level \<times> string"

definition needsDescription :: "project \<Rightarrow> bool" where
  "needsDescription p =
     (let v = toLowerCase (trim (description p)) in
      length v = 0 \<or> v = ''null'' \<or> v = ''undefined'' \<or> startsWith v ''no description'')"

text \<open>
  What the enrichment request can do: \<open>fetch\<close> rejects, or a response arrives with a
  status, a body text and the outcome of \<open>response.json()\<close>: \<open>None\<close> when it rejects,
  the \<open>answer\<close> and the \<open>content\<close> of each of the \<open>results\<close> otherwise.
\<close>

record tavily_payload =
  answer :: "string option"
  results :: "string option list option"

datatype tavily_response =
    TavilyRejects
  | TavilyResponse nat string "tavily_payload option"

text \<open>\<open>results.find((entry) => entry?.content)\<close>: the first content that is truthy.\<close>

fun findContent :: "string option list \<Rightarrow> string option" where
  "findContent [] = None"
| "findContent (None # es) = findContent es"
| "findContent (Some c # es) = (if c = [] then findContent es else Some c)"

definition tavilyQuery :: "project \<Rightarrow> string \<Rightarrow> string" where
  "tavilyQuery p tp = name p @ '' GitHub open-source project for '' @ tp @ '' summary''"

text \<open>
  \<open>fetchDescriptionFromTavily\<close> returns the description or \<open>null\<close>, and what its
  \<open>catch\<close> logs. Nothing escapes the \<open>try\<close> block.
\<close>

definition tavilyFailed :: "string option \<times> log_entry list" where
  "tavilyFailed = (None, [(LogWarn, ''[worker] Tavily description fetch failed'')])"

definition fetchDescriptionFromTavily ::
  "runtime \<Rightarrow> (string \<Rightarrow> tavily_response) \<Rightarrow> project \<Rightarrow> string
     \<Rightarrow> string option \<times> log_entry list" where
  "fetchDescriptionFromTavily rt tavily p tp =
     (if \<not> hasTavily rt \<or> name p = [] then (None, [])
      else
        (case tavily (tavilyQuery p tp) of
           TavilyRejects \<Rightarrow> tavilyFailed
         | TavilyResponse st body parsed \<Rightarrow>
             if \<not> responseOk st then tavilyFailed
             else
               (case parsed of
                  None \<Rightarrow> tavilyFailed
                | Some pl \<Rightarrow>
                    (let ans = map_option trim (answer pl) in
                     if ans \<noteq> None \<and> ans \<noteq> Some [] then (ans, [])
                     else
                       (case results pl of
                          None \<Rightarrow> (None, [])
                        | Some es \<Rightarrow> (map_option trim (findContent es), []))))))"

text \<open>
  One turn of the enrichment loop of \<open>handleJob\<close>; \<open>tavily\<close> is the service as it
  answers the request made for this project.
\<close>

definition enrichProject ::
  "runtime \<Rightarrow> (string \<Rightarrow> tavily_response) \<Rightarrow> string \<Rightarrow> project \<Rightarrow> project \<times> log_entry list" where
  "enrichProject rt tavily tp p =
     (if \<not> needsDescription p then (p, [])
      else
        (case fetchDescriptionFromTavily rt tavily p tp of
           (None, lg) \<Rightarrow> (p, lg)
         | (Some d, lg) \<Rightarrow> if d \<noteq> [] then (p\<lparr>description := d\<rparr>, lg) else (p, lg)))"

text \<open>
  The loop over the selected projects. The service may answer each request differently:
  \<open>tavily i\<close> answers the request made for the project at position \<open>i\<close>.
\<close>

fun enrichFrom ::
  "runtime \<Rightarrow> (nat \<Rightarrow> string \<Rightarrow> tavily_response) \<Rightarrow> string \<Rightarrow> nat \<Rightarrow> project list
     \<Rightarrow> project list \<times> log_entry list" where
  "enrichFrom rt tavily tp i [] = ([], [])"
| "enrichFrom rt tavily tp i (p # ps) =
     (let (p', lg) = enrichProject rt (tavily i) tp p;
          (ps', lgs) = enrichFrom rt tavily tp (Suc i) ps
      in (p' # ps', lg @ lgs))"

definition enrichAll ::
  "runtime \<Rightarrow> (nat \<Rightarrow> string \<Rightarrow> tavily_response) \<Rightarrow> string \<Rightarrow> project list
     \<Rightarrow> project list \<times> log_entry list" where
  "enrichAll rt tavily tp ps =
     (if hasTavily rt then enrichFrom rt tavily tp 0 ps else (ps, []))"

text \<open>
  The answers of the service that give no description: the request fails, the status is
  not a success, the body is not JSON, or the document has neither an answer nor a
  content that is more than white space.
\<close>

definition emptyAnswer :: "tavily_payload \<Rightarrow> bool" where
  "emptyAnswer pl =
     ((case answer pl of None \<Rightarrow> True | Some a \<Rightarrow> trim a = []) \<and>
      (case results pl of
         None \<Rightarrow> True
       | Some es \<Rightarrow> (case findContent es of None \<Rightarrow> True | Some c \<Rightarrow> trim c = [])))"

definition enrichmentFails :: "tavily_response \<Rightarrow> bool" where
  "enrichmentFails r =
     (case r of
        TavilyRejects \<Rightarrow> True
      | TavilyResponse st body parsed \<Rightarrow>
          \<not> responseOk st \<or> (case parsed of None \<Rightarrow> True | Some pl \<Rightarrow> emptyAnswer pl))"

section \<open>The worker\<close>

text \<open>
  The result envelope is a JSON object; a field that the object does not have is
  \<open>None\<close>.
\<close>

record envelope =
  status :: string
  summary :: "string option"
  filters :: search_filters
  totalFetched :: "nat option"
  projects :: "project list option"
  generatedAt :: "string option"
  error :: "string option"

text \<open>The status records that the worker writes under the job's metadata key.\<close>

datatype job_meta =
    MetaProcessing string string string
  | MetaCompleted string nat
  | MetaError string string

text \<open>
  The Redis store as the worker changes it (the lists under the result keys, the expiry
  set on a key, the metadata records), the console, and the time spent in the pause of
  the loop.
\<close>

record worker_state =
  resultQueues :: "string \<Rightarrow> envelope list"
  expiry :: "string \<Rightarrow> nat option"
  jobMeta :: "string \<Rightarrow> job_meta option"
  console :: "log_entry list"
  pausedMs :: nat

definition resultKey :: "runtime \<Rightarrow> string \<Rightarrow> string" where
  "resultKey rt jid = RESULT_PREFIX rt @ '':'' @ jid"

definition metaKey :: "runtime \<Rightarrow> string \<Rightarrow> string" where
  "metaKey rt jid = JOB_METADATA_PREFIX rt @ '':'' @ jid"

definition setMeta :: "runtime \<Rightarrow> string \<Rightarrow> job_meta \<Rightarrow> worker_state \<Rightarrow> worker_state" where
  "setMeta rt jid m st =
     st\<lparr>jobMeta := (jobMeta st)(metaKey rt jid \<mapsto> m),
        expiry := (expiry st)(metaKey rt jid \<mapsto> RESULT_TTL_SECONDS rt)\<rparr>"

definition setJobStatus ::
  "runtime \<Rightarrow> string \<Rightarrow> job_meta \<Rightarrow> worker_state \<Rightarrow> worker_state" where
  "setJobStatus rt jid m st = setMeta rt jid m st"

text \<open>The transaction \<open>multi().rpush(...).expire(...).set(...).exec()\<close>.\<close>

definition publish ::
  "runtime \<Rightarrow> string \<Rightarrow> envelope \<Rightarrow> job_meta \<Rightarrow> worker_state \<Rightarrow> worker_state" where
  "publish rt jid env m st =
     setMeta rt jid m
       (st\<lparr>resultQueues :=
              (resultQueues st)(resultKey rt jid := resultQueues st (resultKey rt jid) @ [env]),
           expiry := (expiry st)(resultKey rt jid \<mapsto> RESULT_TTL_SECONDS rt)\<rparr>)"

text \<open>
  The envelope that the \<open>try\<close> block of \<open>handleJob\<close> builds, or the one of its
  \<open>catch\<close>, with the metadata record written beside it and the console lines.
\<close>

definition jobResult ::
  "runtime \<Rightarrow> (string \<Rightarrow> (string \<times> string) list \<Rightarrow> github_response)
     \<Rightarrow> (nat \<Rightarrow> string \<Rightarrow> tavily_response) \<Rightarrow> string \<Rightarrow> search_filters
     \<Rightarrow> envelope \<times> job_meta \<times> log_entry list" where
  "jobResult rt github tavily jid payload =
     (case fetchRepositories rt github payload of
        Inr fr \<Rightarrow>
          (let (ps, lg) = enrichAll rt tavily (topic payload) (fr_projects fr);
               sm = summarizeResult payload ps (fr_totalFetched fr)
           in (\<lparr>status = ''completed'',
                summary = Some sm,
                filters = payload,
                totalFetched = Some (fr_totalFetched fr),
                projects = Some ps,
                generatedAt = Some (nowISO rt),
                error = None\<rparr>,
               MetaCompleted (nowISO rt) (fr_totalFetched fr),
               lg))
      | Inl message \<Rightarrow>
          (\<lparr>status = ''error'',
            summary = None,
            filters = payload,
            totalFetched = None,
            projects = None,
            generatedAt = None,
            error = Some message\<rparr>,
           MetaError message (nowISO rt),
           [(LogError, ''[worker] Job '' @ jid @ '' failed:'')]))"

definition handleJob ::
  "runtime \<Rightarrow> (string \<Rightarrow> (string \<times> string) list \<Rightarrow> github_response)
     \<Rightarrow> (nat \<Rightarrow> string \<Rightarrow> tavily_response) \<Rightarrow> string \<Rightarrow> search_filters
     \<Rightarrow> worker_state \<Rightarrow> worker_state" where
  "handleJob rt github tavily jid payload st =
     (let st1 = setJobStatus rt jid (MetaProcessing (nowISO rt) (nowISO rt) (topic payload)) st;
          (env, m, lg) = jobResult rt github tavily jid payload;
          st2 = publish rt jid env m st1
      in st2\<lparr>console := console st2 @ lg\<rparr>)"

text \<open>
  What \<open>blpop\<close> on the request queue gives in one turn of the loop: it rejects, it
  returns \<open>null\<close>, or it returns an entry. An entry is text that \<open>JSON.parse\<close> rejects,
  or a document with or without an \<open>id\<close> and a \<open>payload\<close>.
\<close>

datatype queue_entry =
    Unparseable string
  | JobJson "string option" "search_filters option"

datatype blpop_outcome =
    BlpopRejects string
  | BlpopNull
  | BlpopEntry queue_entry

text \<open>The world during one turn of the loop: the runtime and the two services.\<close>

record world =
  w_runtime :: runtime
  w_github :: "string \<Rightarrow> (string \<times> string) list \<Rightarrow> github_response"
  w_tavily :: "nat \<Rightarrow> string \<Rightarrow> tavily_response"

definition logLine :: "level \<Rightarrow> string \<Rightarrow> worker_state \<Rightarrow> worker_state" where
  "logLine lv msg st = st\<lparr>console := console st @ [(lv, msg)]\<rparr>"

text \<open>The body of the \<open>while (true)\<close> loop.\<close>

definition workStep :: "blpop_outcome \<times> world \<Rightarrow> worker_state \<Rightarrow> worker_state" where
  "workStep ev st =
     (case fst ev of
        BlpopRejects msg \<Rightarrow>
          (logLine LogError ''[worker] Unexpected loop error'' st)\<lparr>pausedMs := pausedMs st + 1000\<rparr>
      | BlpopNull \<Rightarrow> st
      | BlpopEntry (Unparseable raw) \<Rightarrow>
          logLine LogError ''[worker] Failed to parse job payload'' st
      | BlpopEntry (JobJson jid payload) \<Rightarrow>
          (case (jid, payload) of
             (Some i, Some pl) \<Rightarrow>
               if i = [] then logLine LogWarn ''[worker] Ignoring malformed job'' st
               else handleJob (w_runtime (snd ev)) (w_github (snd ev)) (w_tavily (snd ev)) i pl st
           | _ \<Rightarrow> logLine LogWarn ''[worker] Ignoring malformed job'' st))"

text \<open>
  \<open>workForever\<close> never returns; the model runs the loop over the outcomes of its first
  \<open>blpop\<close> calls, each with the world of that turn, after the two lines printed at the
  start.
\<close>

fun workLoop :: "(blpop_outcome \<times> world) list \<Rightarrow> worker_state \<Rightarrow> worker_state" where
  "workLoop [] st = st"
| "workLoop (ev # evs) st = workLoop evs (workStep ev st)"

definition workForever ::
  "runtime \<Rightarrow> (blpop_outcome \<times> world) list \<Rightarrow> worker_state \<Rightarrow> worker_state" where
  "workForever rt evs st =
     workLoop evs
       (logLine LogInfo (''[worker] Waiting for jobs on '' @ REQUEST_QUEUE rt @ ''...'')
          (logLine LogInfo (''[worker] Connected to Redis at '' @ REDIS_URL rt) st))"

definition malformed :: "queue_entry \<Rightarrow> bool" where
  "malformed e =
     (case e of
        Unparseable raw \<Rightarrow> True
      | JobJson jid payload \<Rightarrow> jid = None \<or> jid = Some [] \<or> payload = None)"

text \<open>Two states of the worker with the same store; their consoles may differ.\<close>

definition sameStore :: "worker_state \<Rightarrow> worker_state \<Rightarrow> bool" where
  "sameStore a b =
     (resultQueues a = resultQueues b \<and> expiry a = expiry b \<and> jobMeta a = jobMeta b \<and>
      pausedMs a = pausedMs b)"

section \<open>Awaiting the result (the backend)\<close>

text \<open>
  Time is a clock in milliseconds. \<open>brpop\<close> on the result queue with a timeout in
  seconds, as Redis documents it: it returns the element as soon as one is there, or
  \<open>null\<close> once the timeout has passed. \<open>arrival\<close> is the time at which the worker pushes
  its result and the text pushed, which \<open>JSON.parse\<close> rejects or reads as an envelope
  (\<open>None\<close> when no worker runs); the other operations take no time.
\<close>

datatype pushed = BadJson | GoodJson envelope

definition brpop :: "(int \<times> pushed) option \<Rightarrow> int \<Rightarrow> int \<Rightarrow> int \<times> pushed option" where
  "brpop arrival t secs =
     (case arrival of
        None \<Rightarrow> (t + secs * 1000, None)
      | Some (ta, raw) \<Rightarrow>
          if ta < t + secs * 1000 then (max t ta, Some raw) else (t + secs * 1000, None))"

lemma brpop_null:
  "snd (brpop arrival t secs) = None \<Longrightarrow> fst (brpop arrival t secs) = t + secs * 1000"
  by (auto simp: brpop_def split: option.splits if_splits)

datatype wait_outcome =
    Received envelope
  | MalformedData string
  | TimedOut string

text \<open>
  The loop of \<open>waitForResult\<close> from the time \<open>t\<close> on, with the time at which it ends.
  (The deletion of the result queue and the status write on receipt change the store
  only and are left out.)
\<close>

function waitLoop ::
  "(int \<times> pushed) option \<Rightarrow> int \<Rightarrow> int \<Rightarrow> wait_outcome \<times> int" where
  "waitLoop arrival deadline t =
     (if t < deadline then
        (let remainingSeconds = max 1 \<lceil>real_of_int (deadline - t) / 1000\<rceil>;
             response = brpop arrival t remainingSeconds
         in (case snd response of
               None \<Rightarrow> waitLoop arrival deadline (fst response)
             | Some BadJson \<Rightarrow>
                 (MalformedData ''Received malformed data from worker'', fst response)
             | Some (GoodJson parsed) \<Rightarrow> (Received parsed, fst response)))
      else (TimedOut ''Search timed out before the worker responded. Please try again.'', t))"
  by pat_completeness auto
termination
proof (relation "measure (\<lambda>(arrival, deadline, t). nat (deadline - t))")
  show "wf (measure (\<lambda>(arrival, deadline, t). nat (deadline - t)))"
    by simp
next
  fix arrival :: "(int \<times> pushed) option" and deadline t :: int and secs response
  assume running: "t < deadline"
    and secs: "secs = max 1 \<lceil>real_of_int (deadline - t) / 1000\<rceil>"
    and response: "response = brpop arrival t secs"
    and null: "snd response = None"
  have "fst response = t + secs * 1000"
    using null unfolding response by (rule brpop_null)
  moreover have "1 \<le> secs"
    unfolding secs by simp
  ultimately show "((arrival, deadline, fst response), arrival, deadline, t)
       \<in> measure (\<lambda>(arrival, deadline, t). nat (deadline - t))"
    using running by simp
qed

declare waitLoop.simps [simp del]

text \<open>\<open>waitForResult\<close> called at the time \<open>start\<close>, with \<open>SEARCH_TIMEOUT_MS\<close> given.\<close>

definition waitForResult ::
  "int \<Rightarrow> (int \<times> pushed) option \<Rightarrow> int \<Rightarrow> wait_outcome \<times> int" where
  "waitForResult timeoutMs arrival start = waitLoop arrival (start + timeoutMs) start"

section \<open>Concrete inputs\<close>

text \<open>
  A runtime whose clock stands at 2025-01-01T00:00:00Z and whose \<open>Date\<close> knows two
  timestamps, 2 and 90 days before; no Tavily key and no GitHub token are set.
\<close>

definition exampleRuntime :: runtime where
  "exampleRuntime =
     \<lparr>now = 1735689600000,
      nowISO = ''2025-01-01T00:00:00.000Z'',
      getTime = (\<lambda>s. if s = ''2024-12-30T00:00:00Z'' then Some 1735516800000
                     else if s = ''2024-10-03T00:00:00Z'' then Some 1727913600000
                     else None),
      toLocaleString = decimal,
      encodeURIComponent = (\<lambda>s. s),
      maintainedSince = ''2024-01-01'',
      REDIS_URL = ''redis://127.0.0.1:6379'',
      REQUEST_QUEUE = ''hunter:requests'',
      RESULT_PREFIX = ''hunter:results'',
      JOB_METADATA_PREFIX = ''hunter:job'',
      RESULT_TTL_SECONDS = 300,
      USER_AGENT = ''open-source-hunter/0.2.0'',
      TAVILY_API_KEY = [],
      GITHUB_TOKEN = None\<rparr>"

text \<open>The same runtime with a Tavily key.\<close>

definition tavilyRuntime :: runtime where
  "tavilyRuntime = exampleRuntime\<lparr>TAVILY_API_KEY := ''tvly-key''\<rparr>"

text \<open>
  A repository with the given id, star count, push timestamp, language and
  description; it has no forks, watchers, open issues or license.
\<close>

definition exampleRepo ::
  "nat \<Rightarrow> nat \<Rightarrow> string option \<Rightarrow> string option \<Rightarrow> string option \<Rightarrow> repo" where
  "exampleRepo i s p l d =
     \<lparr>repo_id = i,
      full_name = ''octo/repo'',
      html_url = ''https://github.com/octo/repo'',
      repo_description = d,
      repo_homepage = None,
      stargazers_count = s,
      forks_count = 0,
      watchers_count = 0,
      open_issues_count = 0,
      repo_language = l,
      repo_topics = None,
      repo_license = None,
      pushed_at = p,
      updated_at = None,
      repo_owner = None,
      default_branch = None\<rparr>"

definition exampleFilters :: "real option \<Rightarrow> int \<Rightarrow> search_filters" where
  "exampleFilters m n =
     \<lparr>topic = ''graph database'', filter_language = None, minStars = m,
      onlyMaintained = False, limit = n\<rparr>"

text \<open>A GitHub that answers every search with status 200 and the given items.\<close>

definition githubReturning ::
  "repo list \<Rightarrow> string \<Rightarrow> (string \<times> string) list \<Rightarrow> github_response" where
  "githubReturning items u hs = Response 200 [] (Inr (Some items))"

text \<open>A GitHub that cannot be reached, and a Tavily that answers every request with 500.\<close>

definition githubDown :: "string \<Rightarrow> (string \<times> string) list \<Rightarrow> github_response" where
  "githubDown u hs = FetchRejects ''fetch failed''"

definition tavilyDown :: "nat \<Rightarrow> string \<Rightarrow> tavily_response" where
  "tavilyDown i q = TavilyResponse 500 ''Internal Server Error'' None"

text \<open>The worker before its first job: an empty store and an empty console.\<close>

definition emptyState :: worker_state where
  "emptyState =
     \<lparr>resultQueues = (\<lambda>k. []), expiry = Map.empty, jobMeta = Map.empty, console = [],
      pausedMs = 0\<rparr>"

text \<open>A Tavily that answers every request with the given text.\<close>

definition tavilyAnswering :: "string \<Rightarrow> nat \<Rightarrow> string \<Rightarrow> tavily_response" where
  "tavilyAnswering a i q = TavilyResponse 200 [] (Some \<lparr>answer = Some a, results = None\<rparr>)"

text \<open>A repository without stars that was pushed two days ago.\<close>

definition weekRepo :: "nat \<Rightarrow> string option \<Rightarrow> repo" where
  "weekRepo i l = exampleRepo i 0 (Some ''2024-12-30T00:00:00Z'') l None"

text \<open>A world in which GitHub returns the given items and Tavily is down.\<close>

definition exampleWorld :: "repo list \<Rightarrow> world" where
  "exampleWorld items =
     \<lparr>w_runtime = exampleRuntime, w_github = githubReturning items, w_tavily = tavilyDown\<rparr>"

lemmas example_defs =
  exampleRepo_def exampleRuntime_def exampleFilters_def githubReturning_def githubDown_def
  normalizeRepo_def Let_def daysSince_def updatedAtOf_def toFixed2_def rawScore_def
  freshnessScore_def log10_def reasonsOf_def cleanDescription_def licenseOf_def ownerOf_def
  fetchRepositories_def responseOk_def sortBy_def slice0_def
  jobResult_def enrichAll_def hasTavily_def summarizeResult_def observedLanguages_def
  newSet_def setAdd_def topReasons_def decimal.simps
  tavilyRuntime_def tavilyDown_def tavilyAnswering_def weekRepo_def exampleWorld_def
  emptyState_def

lemmas enrich_defs =
  enrichmentFails_def emptyAnswer_def enrichProject_def fetchDescriptionFromTavily_def
  tavilyFailed_def needsDescription_def trim_def isWhiteSpace_def toLowerCase_def
  lowerChar_def startsWith_def tavilyQuery_def

lemmas worker_defs =
  malformed_def workForever_def workStep_def logLine_def handleJob_def publish_def
  setMeta_def setJobStatus_def resultKey_def metaKey_def

section \<open>Scoring and normalization: the properties\<close>




lemma filterBoolean_set: "set (filterBoolean xs) = {s. Some s \<in> set xs \<and> s \<noteq> []}"
  by (induction xs rule: filterBoolean.induct) auto

lemma describeFreshness_nonempty: "describeFreshness d \<noteq> []"
  by (cases d) auto

lemma normalizeRepo_fields:
  "score (normalizeRepo rt r) = toFixed2 (rawScore r (daysSince rt (updatedAtOf r)))"
  "daysSinceUpdate (normalizeRepo rt r) = daysSince rt (updatedAtOf r)"
  "reasons (normalizeRepo rt r) = reasonsOf rt r (daysSince rt (updatedAtOf r))"
  "stars (normalizeRepo rt r) = stargazers_count r"
  "forks (normalizeRepo rt r) = forks_count r"
  "watchers (normalizeRepo rt r) = watchers_count r"
  "openIssues (normalizeRepo rt r) = open_issues_count r"
  "description (normalizeRepo rt r) = cleanDescription (repo_description r)"
  "project_id (normalizeRepo rt r) = repo_id r"
  by (simp_all add: normalizeRepo_def Let_def)



text \<open>
  C6 (as amended). The freshness reason of a finite number of days \<open>d\<close> is
  "updated this week" for \<open>d \<le> 7\<close>, "updated this month" for \<open>7 < d \<le> 30\<close>,
  "activity within the last quarter" for \<open>30 < d \<le> 90\<close>,
  "activity within the last six months" for \<open>90 < d \<le> 180\<close>,
  "activity within the last year" for \<open>180 < d \<le> 365\<close> and
  "no recent commits in the last year" beyond; it is "unknown activity" for \<open>Infinity\<close>.
  The days 7, 30, 90, 180 and 365 fall into the bucket that names them as its bound.
\<close>

theorem describeFreshness_buckets:
  "(d \<le> 7 \<longrightarrow> describeFreshness (Days d) = ''updated this week'') \<and>
   (7 < d \<and> d \<le> 30 \<longrightarrow> describeFreshness (Days d) = ''updated this month'') \<and>
   (30 < d \<and> d \<le> 90 \<longrightarrow> describeFreshness (Days d) = ''activity within the last quarter'') \<and>
   (90 < d \<and> d \<le> 180 \<longrightarrow>
      describeFreshness (Days d) = ''activity within the last six months'') \<and>
   (180 < d \<and> d \<le> 365 \<longrightarrow> describeFreshness (Days d) = ''activity within the last year'') \<and>
   (365 < d \<longrightarrow> describeFreshness (Days d) = ''no recent commits in the last year'') \<and>
   describeFreshness Infinity = ''unknown activity'' \<and>
   describeFreshness (Days 7) = ''updated this week'' \<and>
   describeFreshness (Days 30) = ''updated this month'' \<and>
   describeFreshness (Days 90) = ''activity within the last quarter'' \<and>
   describeFreshness (Days 180) = ''activity within the last six months'' \<and>
   describeFreshness (Days 365) = ''activity within the last year''"
  by simp

theorem describeFreshness_buckets_witness:
  "describeFreshness (Days 3) = ''updated this week'' \<and>
   describeFreshness (Days 20) = ''updated this month'' \<and>
   describeFreshness (Days 45) = ''activity within the last quarter'' \<and>
   describeFreshness (Days 100) = ''activity within the last six months'' \<and>
   describeFreshness (Days 200) = ''activity within the last year'' \<and>
   describeFreshness (Days 400) = ''no recent commits in the last year''"
  using describeFreshness_buckets [of 3] describeFreshness_buckets [of 20]
    describeFreshness_buckets [of 45] describeFreshness_buckets [of 100]
    describeFreshness_buckets [of 200] describeFreshness_buckets [of 400]
  by simp

text \<open>
  The reasons for 90, 180 and 365 days are not the strings "last quarter",
  "last six months" and "last year".
\<close>

theorem describeFreshness_short_names_counterexample:
  "describeFreshness (Days 90) \<noteq> ''last quarter'' \<and>
   describeFreshness (Days 180) \<noteq> ''last six months'' \<and>
   describeFreshness (Days 365) \<noteq> ''last year''"
  by simp

text \<open>
  C10. The reasons of a normalized candidate are never empty: the freshness reason is
  always among them, and it is the only reason when the candidate has no stars, no forks
  and no license identifier.
\<close>

theorem normalizeRepo_reasons_nonempty:
  "reasons (normalizeRepo rt r) \<noteq> [] \<and>
   describeFreshness (daysSinceUpdate (normalizeRepo rt r)) \<in> set (reasons (normalizeRepo rt r)) \<and>
   (stargazers_count r = 0 \<and> forks_count r = 0 \<and>
    (case repo_license r of None \<Rightarrow> True | Some l \<Rightarrow> spdx_id l = None \<or> spdx_id l = Some [])
    \<longrightarrow> reasons (normalizeRepo rt r) = [describeFreshness (daysSinceUpdate (normalizeRepo rt r))])"
proof -
  let ?d = "daysSince rt (updatedAtOf r)"
  have mem: "describeFreshness ?d \<in> set (reasonsOf rt r ?d)"
    by (simp add: reasonsOf_def filterBoolean_set describeFreshness_nonempty)
  have only: "reasonsOf rt r ?d = [describeFreshness ?d]"
    if "stargazers_count r = 0" "forks_count r = 0"
      "case repo_license r of None \<Rightarrow> True | Some l \<Rightarrow> spdx_id l = None \<or> spdx_id l = Some []"
    using that by (auto simp: reasonsOf_def describeFreshness_nonempty split: option.splits)
  from mem have "reasonsOf rt r ?d \<noteq> []"
    by auto
  with mem only show ?thesis
    by (simp add: normalizeRepo_fields)
qed

theorem normalizeRepo_reasons_nonempty_witness:
  "stargazers_count (exampleRepo 1 0 None None None) = 0 \<and>
   forks_count (exampleRepo 1 0 None None None) = 0 \<and>
   repo_license (exampleRepo 1 0 None None None) = None \<and>
   reasons (normalizeRepo exampleRuntime (exampleRepo 1 0 None None None))
     = [''unknown activity'']"
  using normalizeRepo_reasons_nonempty
      [where rt = exampleRuntime and r = "exampleRepo 1 0 None None None"]
  by (simp add: exampleRepo_def normalizeRepo_def Let_def daysSince_def updatedAtOf_def)

section \<open>Ranking: the properties\<close>

lemma insertBy_score:
  "insertBy (\<lambda>a b. score b - score a) x ys = insort_key (\<lambda>p. - score p) x ys"
  by (induction ys) auto

lemma sortBy_score: "sortBy (\<lambda>a b. score b - score a) xs = sort_key (\<lambda>p. - score p) xs"
  by (induction xs) (simp_all add: sortBy_def sort_key_def insertBy_score)

lemma length_sortBy: "length (sortBy cmp xs) = length xs"
proof -
  have "length (insertBy cmp x ys) = Suc (length ys)" for x ys
    by (induction ys) auto
  then show ?thesis
    by (induction xs) (simp_all add: sortBy_def)
qed


lemma slice0_take: "\<exists>k. slice0 xs e = take k xs"
  unfolding slice0_def by auto

lemma length_slice0: "0 \<le> e \<Longrightarrow> int (length (slice0 xs e)) \<le> e"
  by (simp add: slice0_def)

lemma length_slice0_le: "length (slice0 xs e) \<le> length xs"
  by (auto simp: slice0_def)


lemma sorted_slice0:
  assumes "sorted (map f xs)"
  shows "sorted (map f (slice0 xs e))"
proof -
  obtain k where k: "slice0 xs e = take k xs"
    using slice0_take by blast
  have "sorted (take k (map f xs))"
    using assms by (rule sorted_wrt_take)
  then show ?thesis
    by (simp add: k take_map)
qed

lemma sorted_desc_nth:
  assumes "sorted (map (\<lambda>p. - score p) ps)" "i < length ps" "j < length ps"
    "score (ps ! j) < score (ps ! i)"
  shows "i < j"
proof (rule ccontr)
  assume "\<not> i < j"
  then have "j \<le> i"
    by simp
  with assms(1,2) have "map (\<lambda>p. - score p) ps ! j \<le> map (\<lambda>p. - score p) ps ! i"
    by (simp add: sorted_iff_nth_mono)
  with assms(2,3,4) show False
    by simp
qed

lemma fetched_projects_from_items:
  assumes "fetchRepositories rt github payload = Inr fr"
  shows "\<exists>items. fr_totalFetched fr = length items \<and> fr_filters fr = payload \<and>
           fr_projects fr =
             slice0 (sortBy (\<lambda>a b. score b - score a) (map (normalizeRepo rt) items))
               (limit payload)"
  using assms
  by (auto simp: fetchRepositories_def Let_def
      split: github_response.splits if_splits sum.splits)

lemma fetched_lengths:
  assumes "fetchRepositories rt github payload = Inr fr"
  shows "length (fr_projects fr) \<le> fr_totalFetched fr"
    and "0 \<le> limit payload \<Longrightarrow> int (length (fr_projects fr)) \<le> limit payload"
proof -
  obtain items where items: "fr_totalFetched fr = length items"
    "fr_projects fr =
       slice0 (sortBy (\<lambda>a b. score b - score a) (map (normalizeRepo rt) items)) (limit payload)"
    using fetched_projects_from_items [OF assms] by blast
  show "length (fr_projects fr) \<le> fr_totalFetched fr"
    unfolding items
    using length_slice0_le
      [of "sortBy (\<lambda>a b. score b - score a) (map (normalizeRepo rt) items)" "limit payload"]
    by (simp add: length_sortBy)
  show "int (length (fr_projects fr)) \<le> limit payload" if "0 \<le> limit payload"
    unfolding items using that by (rule length_slice0)
qed

lemma enrichProject_cases:
  "fst (enrichProject rt tavily tp p) = p \<or>
   (\<exists>d. d \<noteq> [] \<and> fst (enrichProject rt tavily tp p) = p\<lparr>description := d\<rparr>)"
  by (auto simp: enrichProject_def split: prod.splits option.splits)

lemma enrichProject_erase:
  "(fst (enrichProject rt tavily tp p))\<lparr>description := []\<rparr> = p\<lparr>description := []\<rparr>"
  using enrichProject_cases [of rt tavily tp p] by auto

lemma enrichFrom_erase:
  "map (\<lambda>p. p\<lparr>description := []\<rparr>) (fst (enrichFrom rt tavily tp i ps))
     = map (\<lambda>p. p\<lparr>description := []\<rparr>) ps"
proof (induction ps arbitrary: i)
  case Nil
  show ?case
    by simp
next
  case (Cons p ps)
  show ?case
    using Cons.IH [of "Suc i"] enrichProject_erase [of rt "tavily i" tp p]
    by (auto simp: Let_def split: prod.splits)
qed

lemma enrichAll_erase:
  "map (\<lambda>p. p\<lparr>description := []\<rparr>) (fst (enrichAll rt tavily tp ps))
     = map (\<lambda>p. p\<lparr>description := []\<rparr>) ps"
  by (simp add: enrichAll_def enrichFrom_erase)

lemma enrichAll_length: "length (fst (enrichAll rt tavily tp ps)) = length ps"
  using arg_cong [OF enrichAll_erase [of rt tavily tp ps], of length] by simp


lemma jobResult_completed:
  assumes "fetchRepositories rt github payload = Inr fr"
  shows "jobResult rt github tavily jid payload =
     (\<lparr>status = ''completed'',
       summary =
         Some (summarizeResult payload
                 (fst (enrichAll rt tavily (topic payload) (fr_projects fr)))
                 (fr_totalFetched fr)),
       filters = payload,
       totalFetched = Some (fr_totalFetched fr),
       projects = Some (fst (enrichAll rt tavily (topic payload) (fr_projects fr))),
       generatedAt = Some (nowISO rt),
       error = None\<rparr>,
      MetaCompleted (nowISO rt) (fr_totalFetched fr),
      snd (enrichAll rt tavily (topic payload) (fr_projects fr)))"
  using assms by (simp add: jobResult_def Let_def split: prod.splits)

lemma jobResult_error:
  assumes "fetchRepositories rt github payload = Inl message"
  shows "jobResult rt github tavily jid payload =
     (\<lparr>status = ''error'', summary = None, filters = payload, totalFetched = None,
       projects = None, generatedAt = None, error = Some message\<rparr>,
      MetaError message (nowISO rt),
      [(LogError, ''[worker] Job '' @ jid @ '' failed:'')])"
  using assms by (simp add: jobResult_def)

lemma handleJob_publishes:
  "resultQueues (handleJob rt github tavily jid payload st) (resultKey rt jid)
     = resultQueues st (resultKey rt jid) @ [fst (jobResult rt github tavily jid payload)]"
  by (simp add: handleJob_def Let_def publish_def setMeta_def setJobStatus_def
      split: prod.splits)

text \<open>
  C2. When the search succeeds with a list of items, the projects that
  \<open>fetchRepositories\<close> returns are in descending order of score: a project with a
  greater score stands before one with a smaller score. Projects of equal score keep
  their fetch order: for every score, the projects of the result that have it are an
  initial part of the fetched candidates that have it, in the order fetched. The
  projects of the published envelope are these, in this order, up to their
  descriptions.
\<close>

theorem fetchRepositories_sorted_stable:
  assumes "github (buildGitHubQuery rt payload) (requestHeaders rt)
             = Response st body (Inr (Some items))"
    and "responseOk st"
  shows "\<exists>fr. fetchRepositories rt github payload = Inr fr \<and>
     (\<forall>i j. i < length (fr_projects fr) \<and> j < length (fr_projects fr) \<and>
        score (fr_projects fr ! j) < score (fr_projects fr ! i) \<longrightarrow> i < j) \<and>
     (\<forall>s. prefix (filter (\<lambda>p. score p = s) (fr_projects fr))
                  (filter (\<lambda>p. score p = s) (map (normalizeRepo rt) items))) \<and>
     (\<exists>qs. projects (fst (jobResult rt github tavily jid payload)) = Some qs \<and>
        map (\<lambda>q. q\<lparr>description := []\<rparr>) qs
          = map (\<lambda>q. q\<lparr>description := []\<rparr>) (fr_projects fr))"
proof -
  let ?norm = "map (normalizeRepo rt) items"
  let ?sorted = "sort_key (\<lambda>p. - score p) ?norm"
  let ?ps = "slice0 ?sorted (limit payload)"
  have fr: "fetchRepositories rt github payload =
      Inr \<lparr>fr_filters = payload, fr_totalFetched = length items, fr_projects = ?ps\<rparr>"
    using assms by (simp add: fetchRepositories_def Let_def sortBy_score)
  have "sorted (map (\<lambda>p. - score p) ?sorted)"
    by (rule sorted_sort_key)
  then have desc: "sorted (map (\<lambda>p. - score p) ?ps)"
    by (rule sorted_slice0)
  have order: "\<forall>i j. i < length ?ps \<and> j < length ?ps \<and> score (?ps ! j) < score (?ps ! i)
      \<longrightarrow> i < j"
    using sorted_desc_nth [OF desc] by blast
  have stable: "prefix (filter (\<lambda>p. score p = s) ?ps) (filter (\<lambda>p. score p = s) ?norm)" for s
  proof -
    obtain k where k: "?ps = take k ?sorted"
      using slice0_take by blast
    have "prefix (filter (\<lambda>p. score p = s) ?ps) (filter (\<lambda>p. score p = s) ?sorted)"
      unfolding k by (intro filter_mono_prefix take_is_prefix)
    moreover have "filter (\<lambda>p. score p = s) ?sorted = filter (\<lambda>p. score p = s) ?norm"
      using sort_key_stable [of "\<lambda>p. - score p" "- s" ?norm] by simp
    ultimately show ?thesis
      by simp
  qed
  have published: "\<exists>qs. projects (fst (jobResult rt github tavily jid payload)) = Some qs \<and>
        map (\<lambda>q. q\<lparr>description := []\<rparr>) qs = map (\<lambda>q. q\<lparr>description := []\<rparr>) ?ps"
    unfolding jobResult_completed [OF fr] by (simp add: enrichAll_erase)
  show ?thesis
    unfolding fr using order stable published by simp
qed

theorem fetchRepositories_sorted_stable_witness:
  "responseOk 200 \<and>
   (\<exists>fr. fetchRepositories exampleRuntime
      (githubReturning [exampleRepo 1 0 None None None, exampleRepo 2 9 None None None,
                        exampleRepo 3 0 None None None,
                        exampleRepo 4 9 (Some ''2024-10-03T00:00:00Z'') None None])
      (exampleFilters None 3) = Inr fr \<and>
    map project_id (fr_projects fr) = [4, 2, 1] \<and>
    map score (fr_projects fr) = [4.75, 2.5, 0])"
  using fetchRepositories_sorted_stable
    [where rt = exampleRuntime and payload = "exampleFilters None 3" and st = 200
      and body = "[]" and tavily = tavilyDown and jid = "''job-1''"
      and github = "githubReturning [exampleRepo 1 0 None None None,
                        exampleRepo 2 9 None None None, exampleRepo 3 0 None None None,
                        exampleRepo 4 9 (Some ''2024-10-03T00:00:00Z'') None None]"
      and items = "[exampleRepo 1 0 None None None, exampleRepo 2 9 None None None,
                        exampleRepo 3 0 None None None,
                        exampleRepo 4 9 (Some ''2024-10-03T00:00:00Z'') None None]"]
  by (simp add: example_defs)

section \<open>The worker: the properties\<close>

text \<open>
  C3 (as amended). \<open>handleJob\<close> appends one envelope to the result queue of the job.
  The envelope echoes the filters. When the fetch succeeds its status is "completed" and
  it has a summary, \<open>totalFetched\<close>, a \<open>generatedAt\<close> timestamp and the projects, no
  more than were fetched and, for a limit that is not negative, no more than the limit.
  When the fetch fails its status is "error" and it has the message of the failure as
  its error text; it has none of the other fields, and no \<open>generatedAt\<close>.
\<close>

theorem handleJob_envelope:
  "resultQueues (handleJob rt github tavily jid payload st) (resultKey rt jid)
     = resultQueues st (resultKey rt jid) @ [fst (jobResult rt github tavily jid payload)] \<and>
   filters (fst (jobResult rt github tavily jid payload)) = payload \<and>
   (case fetchRepositories rt github payload of
      Inr fr \<Rightarrow>
        status (fst (jobResult rt github tavily jid payload)) = ''completed'' \<and>
        (\<exists>sm. summary (fst (jobResult rt github tavily jid payload)) = Some sm) \<and>
        totalFetched (fst (jobResult rt github tavily jid payload)) = Some (fr_totalFetched fr) \<and>
        (\<exists>ps. projects (fst (jobResult rt github tavily jid payload)) = Some ps \<and>
              length ps \<le> fr_totalFetched fr \<and>
              (0 \<le> limit payload \<longrightarrow> int (length ps) \<le> limit payload)) \<and>
        generatedAt (fst (jobResult rt github tavily jid payload)) = Some (nowISO rt) \<and>
        error (fst (jobResult rt github tavily jid payload)) = None
    | Inl message \<Rightarrow>
        status (fst (jobResult rt github tavily jid payload)) = ''error'' \<and>
        error (fst (jobResult rt github tavily jid payload)) = Some message \<and>
        summary (fst (jobResult rt github tavily jid payload)) = None \<and>
        totalFetched (fst (jobResult rt github tavily jid payload)) = None \<and>
        projects (fst (jobResult rt github tavily jid payload)) = None \<and>
        generatedAt (fst (jobResult rt github tavily jid payload)) = None)"
proof (cases "fetchRepositories rt github payload")
  case (Inl message)
  show ?thesis
    unfolding handleJob_publishes Inl jobResult_error [OF Inl] by simp
next
  case (Inr fr)
  show ?thesis
    unfolding handleJob_publishes Inr jobResult_completed [OF Inr]
    using fetched_lengths [OF Inr] by (simp add: enrichAll_length)
qed

theorem handleJob_envelope_witness:
  "0 \<le> limit (exampleFilters None 1) \<and>
   status (fst (jobResult exampleRuntime
       (githubReturning [exampleRepo 1 0 None None None, exampleRepo 2 9 None None None])
       tavilyDown ''job-1'' (exampleFilters None 1))) = ''completed'' \<and>
   map_option (map project_id) (projects (fst (jobResult exampleRuntime
       (githubReturning [exampleRepo 1 0 None None None, exampleRepo 2 9 None None None])
       tavilyDown ''job-1'' (exampleFilters None 1)))) = Some [2] \<and>
   totalFetched (fst (jobResult exampleRuntime
       (githubReturning [exampleRepo 1 0 None None None, exampleRepo 2 9 None None None])
       tavilyDown ''job-1'' (exampleFilters None 1))) = Some 2 \<and>
   error (fst (jobResult exampleRuntime githubDown tavilyDown ''job-2'' (exampleFilters None 1)))
     = Some ''fetch failed''"
  using handleJob_envelope
    [where rt = exampleRuntime and payload = "exampleFilters None 1" and jid = "''job-1''"
      and tavily = tavilyDown and st = emptyState
      and github = "githubReturning [exampleRepo 1 0 None None None,
                      exampleRepo 2 9 None None None]"]
    handleJob_envelope
    [where rt = exampleRuntime and payload = "exampleFilters None 1" and jid = "''job-2''"
      and tavily = tavilyDown and st = emptyState and github = githubDown]
  by (simp add: example_defs)

text \<open>
  The envelope published for a job whose search cannot reach GitHub has no
  \<open>generatedAt\<close>.
\<close>

theorem error_envelope_generatedAt_counterexample:
  "status (fst (jobResult exampleRuntime githubDown tavilyDown ''job-2''
      (exampleFilters None 6))) = ''error'' \<and>
   generatedAt (fst (jobResult exampleRuntime githubDown tavilyDown ''job-2''
      (exampleFilters None 6))) = None \<and>
   resultQueues (handleJob exampleRuntime githubDown tavilyDown ''job-2''
      (exampleFilters None 6) emptyState) ''hunter:results:job-2''
     = [\<lparr>status = ''error'', summary = None, filters = exampleFilters None 6,
         totalFetched = None, projects = None, generatedAt = None,
         error = Some ''fetch failed''\<rparr>]"
  by (simp add: example_defs handleJob_def publish_def setMeta_def setJobStatus_def
      resultKey_def metaKey_def emptyState_def)




section \<open>Enrichment: the properties\<close>


text \<open>
  A job whose two projects lack and have a description, with a Tavily that answers:
  the answer, trimmed, becomes the description of the first one only.
\<close>

lemma enrichment_replaces_missing_description:
  "map_option (map description)
     (projects (fst (jobResult tavilyRuntime
        (githubReturning [exampleRepo 1 9 None None None,
                          exampleRepo 2 0 None None (Some ''A db'')])
        (tavilyAnswering ''  A graph database.  '') ''job-1'' (exampleFilters None 6))))
   = Some [''A graph database.'', ''A db'']"
  by (simp add: example_defs enrich_defs)



section \<open>The summary sentence: the properties\<close>

lemma foldl_setAdd:
  "distinct acc \<Longrightarrow>
   distinct (foldl setAdd acc xs) \<and> set (foldl setAdd acc xs) = set acc \<union> set xs"
  by (induction xs arbitrary: acc) (auto simp: setAdd_def)

lemma newSet_distinct: "distinct (newSet xs)" and newSet_set: "set (newSet xs) = set xs"
  using foldl_setAdd [of "[]" xs] by (simp_all add: newSet_def)

lemma first_reasons:
  "concat (map (\<lambda>p. take 1 (reasons p)) ps)
     = map hd (filter (\<lambda>rs. rs \<noteq> []) (map reasons ps))"
proof (induction ps)
  case Nil
  show ?case
    by simp
next
  case (Cons p ps)
  then show ?case
    by (cases "reasons p") simp_all
qed

text \<open>
  C9 (as amended). For no projects the summary says that no repositories matched the
  topic with the current filters. Otherwise it gives the number of projects, adds
  "that are actively maintained" exactly when \<open>onlyMaintained\<close> is set, lists the
  languages observed, each once and none empty, and lists as highlights the first
  reasons of the first three projects that have one. The highlights are not made
  distinct.
\<close>

theorem summarizeResult_sentence:
  "summarizeResult payload ps n =
     (if ps = [] then
        ''No repositories matched '' @ [CHR 0x22] @ topic payload @ [CHR 0x22]
        @ '' with the current filters.''
      else
        ''Found '' @ decimal (length ps) @ '' standout open-source project(s)''
        @ (if onlyMaintained payload then '' that are actively maintained'' else [])
        @ '' for '' @ [CHR 0x22] @ topic payload @ [CHR 0x22] @ ''.''
        @ (if observedLanguages ps = [] then []
           else '' Focused languages: '' @ join '', '' (observedLanguages ps) @ ''.'')
        @ (if join '', '' (topReasons ps) = [] then []
           else '' Highlights: '' @ join '', '' (topReasons ps) @ ''.'')) \<and>
   distinct (observedLanguages ps) \<and>
   set (observedLanguages ps) = {l. l \<noteq> [] \<and> (\<exists>p \<in> set ps. language p = Some l)} \<and>
   topReasons ps = take 3 (map hd (filter (\<lambda>rs. rs \<noteq> []) (map reasons ps)))"
proof -
  have sentence: "summarizeResult payload ps n =
     (if ps = [] then
        ''No repositories matched '' @ [CHR 0x22] @ topic payload @ [CHR 0x22]
        @ '' with the current filters.''
      else
        ''Found '' @ decimal (length ps) @ '' standout open-source project(s)''
        @ (if onlyMaintained payload then '' that are actively maintained'' else [])
        @ '' for '' @ [CHR 0x22] @ topic payload @ [CHR 0x22] @ ''.''
        @ (if observedLanguages ps = [] then []
           else '' Focused languages: '' @ join '', '' (observedLanguages ps) @ ''.'')
        @ (if join '', '' (topReasons ps) = [] then []
           else '' Highlights: '' @ join '', '' (topReasons ps) @ ''.''))"
    by (simp add: summarizeResult_def Let_def)
  have langs: "set (observedLanguages ps)
      = {l. l \<noteq> [] \<and> (\<exists>p \<in> set ps. language p = Some l)}"
  proof -
    have "Some l \<in> language ` set ps \<longleftrightarrow> (\<exists>p \<in> set ps. language p = Some l)" for l
      by (metis imageE image_eqI)
    then show ?thesis
      by (auto simp: observedLanguages_def newSet_set filterBoolean_set)
  qed
  have "distinct (observedLanguages ps)"
    by (simp add: observedLanguages_def newSet_distinct)
  moreover have "topReasons ps = take 3 (map hd (filter (\<lambda>rs. rs \<noteq> []) (map reasons ps)))"
    by (simp only: topReasons_def first_reasons)
  ultimately show ?thesis
    using sentence langs by blast
qed

theorem summarizeResult_sentence_witness:
  "summarizeResult (exampleFilters None 6)
     (map (normalizeRepo exampleRuntime)
        [weekRepo 1 (Some ''Rust''), exampleRepo 2 9 None (Some ''Go'') None,
         weekRepo 3 (Some ''Rust''), weekRepo 4 (Some ''C'')]) 4
     = ''Found 4 standout open-source project(s) for '' @ [CHR 0x22] @ ''graph database''
       @ [CHR 0x22]
       @ ''. Focused languages: Rust, Go, C.''
       @ '' Highlights: updated this week, 9 stars, updated this week.'' \<and>
   summarizeResult (exampleFilters None 6) [] 0
     = ''No repositories matched '' @ [CHR 0x22] @ ''graph database'' @ [CHR 0x22]
       @ '' with the current filters.''"
  using summarizeResult_sentence
    [where payload = "exampleFilters None 6" and n = 4
      and ps = "map (normalizeRepo exampleRuntime)
        [weekRepo 1 (Some ''Rust''), exampleRepo 2 9 None (Some ''Go'') None,
         weekRepo 3 (Some ''Rust''), weekRepo 4 (Some ''C'')]"]
    summarizeResult_sentence [where payload = "exampleFilters None 6" and n = 0 and ps = "[]"]
  by (simp add: example_defs)

text \<open>
  Three projects whose first reason is "updated this week": the highlights name it
  three times.
\<close>

theorem highlights_not_distinct_counterexample:
  "topReasons (map (normalizeRepo exampleRuntime)
      [weekRepo 1 None, weekRepo 2 None, weekRepo 3 None])
     = [''updated this week'', ''updated this week'', ''updated this week''] \<and>
   \<not> distinct (topReasons (map (normalizeRepo exampleRuntime)
        [weekRepo 1 None, weekRepo 2 None, weekRepo 3 None])) \<and>
   summarizeResult (exampleFilters None 6)
     (map (normalizeRepo exampleRuntime) [weekRepo 1 None, weekRepo 2 None, weekRepo 3 None]) 3
     = ''Found 3 standout open-source project(s) for '' @ [CHR 0x22] @ ''graph database''
       @ [CHR 0x22]
       @ ''. Highlights: updated this week, updated this week, updated this week.''"
  by (simp add: example_defs)

section \<open>The worker loop: the properties\<close>

lemma handleJob_sameStore:
  "sameStore a b \<Longrightarrow>
   sameStore (handleJob rt github tavily jid payload a)
     (handleJob rt github tavily jid payload b)"
  by (simp add: sameStore_def handleJob_def Let_def publish_def setMeta_def setJobStatus_def
      split: prod.splits)

lemma workStep_sameStore:
  assumes ab: "sameStore a b"
  shows "sameStore (workStep ev a) (workStep ev b)"
proof -
  have log: "sameStore (logLine lv msg a) (logLine lv msg b)" for lv msg
    using ab by (simp add: sameStore_def logLine_def)
  have paused: "sameStore ((logLine lv msg a)\<lparr>pausedMs := pausedMs a + 1000\<rparr>)
      ((logLine lv msg b)\<lparr>pausedMs := pausedMs b + 1000\<rparr>)" for lv msg
    using ab by (simp add: sameStore_def logLine_def)
  show ?thesis
    unfolding workStep_def
    using ab log paused handleJob_sameStore [OF ab]
    by (auto split: blpop_outcome.splits queue_entry.splits option.splits)
qed

lemma workLoop_sameStore: "sameStore a b \<Longrightarrow> sameStore (workLoop evs a) (workLoop evs b)"
  by (induction evs arbitrary: a b) (simp_all add: workStep_sameStore)

lemma workLoop_append: "workLoop (xs @ ys) st = workLoop ys (workLoop xs st)"
  by (induction xs arbitrary: st) simp_all

lemma workStep_malformed:
  assumes "malformed e"
  shows "workStep (BlpopEntry e, w) st =
     st\<lparr>console := console st @
        [case e of
           Unparseable raw \<Rightarrow> (LogError, ''[worker] Failed to parse job payload'')
         | JobJson jid payload \<Rightarrow> (LogWarn, ''[worker] Ignoring malformed job'')]\<rparr>"
  using assms
  by (auto simp: malformed_def workStep_def logLine_def
      split: queue_entry.splits option.splits)

lemma workStep_job:
  assumes "i \<noteq> []"
  shows "workStep (BlpopEntry (JobJson (Some i) (Some pl)), w) st =
     handleJob (w_runtime w) (w_github w) (w_tavily w) i pl st"
  using assms by (simp add: workStep_def)

text \<open>
  C7. A malformed entry of the request queue (text that is not JSON, or a document
  without an id or without a payload) changes nothing in the store: no result queue, no
  status record and no expiry. The turn adds one line to the console: an error line for
  text that is not JSON, a warning for a missing field. The loop goes on: whatever was
  dequeued before and is dequeued after, the result queues and the status records end
  as they would without the malformed entry, and a well-formed job dequeued right after
  it has its envelope appended to its own result queue.
\<close>

theorem malformed_request_dropped:
  assumes "malformed e"
  shows "resultQueues (workStep (BlpopEntry e, w) st) = resultQueues st \<and>
     jobMeta (workStep (BlpopEntry e, w) st) = jobMeta st \<and>
     expiry (workStep (BlpopEntry e, w) st) = expiry st \<and>
     console (workStep (BlpopEntry e, w) st) = console st @
        [case e of
           Unparseable raw \<Rightarrow> (LogError, ''[worker] Failed to parse job payload'')
         | JobJson jid payload \<Rightarrow> (LogWarn, ''[worker] Ignoring malformed job'')] \<and>
     resultQueues (workForever rt (before @ (BlpopEntry e, w) # after) st)
       = resultQueues (workForever rt (before @ after) st) \<and>
     jobMeta (workForever rt (before @ (BlpopEntry e, w) # after) st)
       = jobMeta (workForever rt (before @ after) st) \<and>
     (i \<noteq> [] \<longrightarrow>
        resultQueues
          (workForever rt
             (before @ [(BlpopEntry e, w), (BlpopEntry (JobJson (Some i) (Some pl)), w')]) st)
          (resultKey (w_runtime w') i)
        = resultQueues (workForever rt before st) (resultKey (w_runtime w') i)
          @ [fst (jobResult (w_runtime w') (w_github w') (w_tavily w') i pl)])"
proof -
  let ?bad = "(BlpopEntry e, w)"
  let ?init = "logLine LogInfo (''[worker] Waiting for jobs on '' @ REQUEST_QUEUE rt @ ''...'')
          (logLine LogInfo (''[worker] Connected to Redis at '' @ REDIS_URL rt) st)"
  have step: "sameStore (workStep ?bad s) s" for s
    unfolding workStep_malformed [OF assms] by (simp add: sameStore_def)
  have fields: "resultQueues (workStep ?bad st) = resultQueues st"
    "jobMeta (workStep ?bad st) = jobMeta st" "expiry (workStep ?bad st) = expiry st"
    using step [of st] by (simp_all add: sameStore_def)
  have log: "console (workStep ?bad st) = console st @
        [case e of
           Unparseable raw \<Rightarrow> (LogError, ''[worker] Failed to parse job payload'')
         | JobJson jid payload \<Rightarrow> (LogWarn, ''[worker] Ignoring malformed job'')]"
    unfolding workStep_malformed [OF assms] by simp
  have skip: "sameStore (workLoop (before @ ?bad # evs) s) (workLoop (before @ evs) s)"
    for s evs
    using workLoop_sameStore [OF step [of "workLoop before s"], of evs]
    by (simp add: workLoop_append)
  have iso: "resultQueues (workForever rt (before @ ?bad # after) st)
       = resultQueues (workForever rt (before @ after) st)"
    "jobMeta (workForever rt (before @ ?bad # after) st)
       = jobMeta (workForever rt (before @ after) st)"
    using skip [where s = ?init and evs = after] by (simp_all add: workForever_def sameStore_def)
  have next_job: "resultQueues
          (workForever rt (before @ [?bad, (BlpopEntry (JobJson (Some i) (Some pl)), w')]) st)
          (resultKey (w_runtime w') i)
        = resultQueues (workForever rt before st) (resultKey (w_runtime w') i)
          @ [fst (jobResult (w_runtime w') (w_github w') (w_tavily w') i pl)]" if "i \<noteq> []"
  proof -
    let ?job = "(BlpopEntry (JobJson (Some i) (Some pl)), w')"
    have "resultQueues (workForever rt (before @ [?bad, ?job]) st)
        = resultQueues (workForever rt (before @ [?job]) st)"
      using skip [where s = ?init and evs = "[?job]"]
      by (simp add: workForever_def sameStore_def)
    moreover have "workForever rt (before @ [?job]) st
        = handleJob (w_runtime w') (w_github w') (w_tavily w') i pl (workForever rt before st)"
      by (simp add: workForever_def workLoop_append workStep_job [OF that])
    ultimately show ?thesis
      by (simp add: handleJob_publishes)
  qed
  show ?thesis
    using fields log iso next_job by blast
qed

theorem malformed_request_dropped_witness:
  "malformed (Unparseable ''{not json'') \<and>
   malformed (JobJson None (Some (exampleFilters None 6))) \<and>
   map status (resultQueues
     (workForever exampleRuntime
        [(BlpopEntry (Unparseable ''{not json''), exampleWorld []),
         (BlpopEntry (JobJson (Some ''job-7'') (Some (exampleFilters None 6))),
          exampleWorld [exampleRepo 1 9 None None None])]
        emptyState)
     ''hunter:results:job-7'') = [''completed''] \<and>
   console (workStep (BlpopEntry (JobJson None (Some (exampleFilters None 6))), exampleWorld [])
              emptyState)
     = [(LogWarn, ''[worker] Ignoring malformed job'')]"
  using malformed_request_dropped
    [where e = "Unparseable ''{not json''" and w = "exampleWorld []" and st = emptyState
      and rt = exampleRuntime and before = "[]" and after = "[]" and i = "''job-7''"
      and pl = "exampleFilters None 6" and w' = "exampleWorld [exampleRepo 1 9 None None None]"]
    malformed_request_dropped
    [where e = "JobJson None (Some (exampleFilters None 6))" and w = "exampleWorld []"
      and st = emptyState and rt = exampleRuntime and before = "[]" and after = "[]"
      and i = "''job-7''" and pl = "exampleFilters None 6"
      and w' = "exampleWorld [exampleRepo 1 9 None None None]"]
  by (simp add: example_defs worker_defs)

section \<open>Awaiting the result: the properties\<close>

lemma ceiling_ms:
  fixes T :: int
  assumes "0 < T"
  shows "1 \<le> \<lceil>real_of_int T / 1000\<rceil>" "T \<le> 1000 * \<lceil>real_of_int T / 1000\<rceil>"
    "1000 * \<lceil>real_of_int T / 1000\<rceil> < T + 1000"
proof -
  let ?c = "\<lceil>real_of_int T / 1000\<rceil>"
  have up: "real_of_int T / 1000 \<le> real_of_int ?c"
    by (rule le_of_int_ceiling)
  have lo: "real_of_int ?c < real_of_int T / 1000 + 1"
    using ceiling_correct [of "real_of_int T / 1000"] by linarith
  have "0 < real_of_int T / 1000"
    using assms by simp
  with up have "0 < real_of_int ?c"
    by linarith
  then show "1 \<le> ?c"
    by linarith
  from up have "real_of_int T \<le> 1000 * real_of_int ?c"
    by linarith
  then have "real_of_int T \<le> real_of_int (1000 * ?c)"
    by simp
  then show "T \<le> 1000 * ?c"
    by (simp only: of_int_le_iff)
  from lo have "1000 * real_of_int ?c < real_of_int T + 1000"
    by linarith
  then have "real_of_int (1000 * ?c) < real_of_int (T + 1000)"
    by simp
  then show "1000 * ?c < T + 1000"
    by (simp only: of_int_less_iff)
qed

text \<open>
  A result pushed after 3.5 seconds is returned at that time. With a timeout of 500 ms,
  a result pushed after 700 ms is still returned: the pop blocks for a whole second.
\<close>

lemma waitForResult_receives:
  "waitForResult 20000 (Some (3500, GoodJson e)) 0 = (Received e, 3500)"
  "waitForResult 500 (Some (700, GoodJson e)) 0 = (Received e, 700)"
  unfolding waitForResult_def
  by (subst waitLoop.simps, simp add: Let_def brpop_def ceiling_eq_iff)+

text \<open>
  C8 (as amended). \<open>waitForResult\<close> with a positive timeout blocks once, for the timeout
  rounded up to whole seconds. When no result is pushed before this pop ends, it fails
  with the timeout error, at or after the deadline and less than 1000 ms after it.
\<close>

theorem waitForResult_timeout:
  assumes "0 < timeoutMs"
    and "\<forall>ta raw. arrival = Some (ta, raw) \<longrightarrow>
           start + 1000 * \<lceil>real_of_int timeoutMs / 1000\<rceil> \<le> ta"
  shows "waitForResult timeoutMs arrival start =
      (TimedOut ''Search timed out before the worker responded. Please try again.'',
       start + 1000 * \<lceil>real_of_int timeoutMs / 1000\<rceil>) \<and>
     start + timeoutMs \<le> snd (waitForResult timeoutMs arrival start) \<and>
     snd (waitForResult timeoutMs arrival start) < start + timeoutMs + 1000"
proof -
  let ?c = "\<lceil>real_of_int timeoutMs / 1000\<rceil>"
  have secs: "max 1 ?c = ?c"
    using ceiling_ms(1) [OF assms(1)] by simp
  have null: "brpop arrival start ?c = (start + ?c * 1000, None)"
    using assms(2) by (auto simp: brpop_def split: option.splits)
  have first: "waitLoop arrival (start + timeoutMs) start
      = waitLoop arrival (start + timeoutMs) (start + ?c * 1000)"
    using assms(1) by (subst waitLoop.simps) (simp add: Let_def secs null)
  have "\<not> start + ?c * 1000 < start + timeoutMs"
    using ceiling_ms(2) [OF assms(1)] by simp
  then have "waitLoop arrival (start + timeoutMs) (start + ?c * 1000) =
      (TimedOut ''Search timed out before the worker responded. Please try again.'',
       start + ?c * 1000)"
    by (subst waitLoop.simps) simp
  with first have run: "waitForResult timeoutMs arrival start =
      (TimedOut ''Search timed out before the worker responded. Please try again.'',
       start + 1000 * ?c)"
    by (simp add: waitForResult_def mult.commute)
  show ?thesis
    unfolding run using ceiling_ms(2,3) [OF assms(1)] by simp
qed

theorem waitForResult_timeout_witness:
  "(0::int) < 20000 \<and> snd (waitForResult 20000 None 0) = 20000 \<and>
   (0::int) < 1500 \<and> snd (waitForResult 1500 (Some (2000, BadJson)) 0) = 2000"
  using waitForResult_timeout [where timeoutMs = 20000 and start = 0 and arrival = None]
    waitForResult_timeout
      [where timeoutMs = 1500 and start = 0 and arrival = "Some (2000, BadJson)"]
  by (simp add: ceiling_eq_iff)

text \<open>
  With a timeout of 500 ms and no worker, the call started at time 0 fails at time 1000:
  not before 600.
\<close>

theorem waitForResult_500ms_counterexample:
  "waitForResult 500 None 0 =
      (TimedOut ''Search timed out before the worker responded. Please try again.'', 1000) \<and>
   \<not> snd (waitForResult 500 None 0) < 600"
proof -
  have half: "\<lceil>real_of_int 500 / 1000\<rceil> = (1::int)"
    by (simp add: ceiling_eq_iff)
  have "waitLoop None 500 0 = waitLoop None 500 1000"
    by (subst waitLoop.simps) (simp add: Let_def brpop_def half)
  moreover have "waitLoop None 500 1000 =
      (TimedOut ''Search timed out before the worker responded. Please try again.'', 1000)"
    by (subst waitLoop.simps) simp
  ultimately show ?thesis
    by (simp add: waitForResult_def)
qed

end
